theory Spec2Isabelle
  imports Main "HOL-Library.AList"
begin

section \<open>Data model (backend/schemas.py)\<close>

text \<open>
  The two \<^verbatim>\<open>Literal[...]\<close> types of \<^verbatim>\<open>ProcessingState\<close> are closed enumerations.
\<close>

datatype status = Pending | Processing | Completed | Failed

datatype document_type = EmploymentContract | Payslip

text \<open>
  Python values that the workflow stores in dictionaries. Values the workflow only
  carries and never inspects (floats, dates of the extracted record) are \<open>POpaque\<close>.
\<close>

datatype pyval =
    PNone
  | PBool bool
  | PInt int
  | PStr string
  | POpaque string
  | PDict "(string \<times> pyval) list"

type_synonym py_dict = "(string \<times> pyval) list"

text \<open>\<^verbatim>\<open>d.get(k, default)\<close> and \<^verbatim>\<open>d[k] = v\<close> on an insertion-ordered dictionary.\<close>

definition dict_get :: "py_dict \<Rightarrow> string \<Rightarrow> pyval \<Rightarrow> pyval" where
  "dict_get d k dflt = (case map_of d k of None \<Rightarrow> dflt | Some v \<Rightarrow> v)"

definition dict_set :: "string \<Rightarrow> pyval \<Rightarrow> py_dict \<Rightarrow> py_dict" where
  "dict_set k v d = AList.update k v d"

record ProcessingState =
  job_id :: string
  document_type :: document_type
  file_path :: string
  extracted_text :: "string option"
  structured_data :: "py_dict option"
  processing_status :: status
  error_message :: "string option"
  pdf_path :: "string option"
  current_node :: "string option"
  processing_metadata :: py_dict
  retry_count :: int

text \<open>
  \<^verbatim>\<open>update_status(status, node=None)\<close>: the node is stored only when it is truthy
  (neither \<^verbatim>\<open>None\<close> nor the empty string).
\<close>

definition update_status :: "status \<Rightarrow> string option \<Rightarrow> ProcessingState \<Rightarrow> ProcessingState" where
  "update_status st node s =
     (let s1 = s\<lparr>processing_status := st\<rparr>
      in case node of
           None \<Rightarrow> s1
         | Some n \<Rightarrow> if n = [] then s1 else s1\<lparr>current_node := Some n\<rparr>)"

text \<open>
  The state a job starts from: \<^verbatim>\<open>ProcessingState(job_id=..., document_type=..., file_path=...)\<close>
  with every other field at its declared default.
\<close>

definition initial_ProcessingState :: "string \<Rightarrow> document_type \<Rightarrow> string \<Rightarrow> ProcessingState" where
  "initial_ProcessingState jid dt fp =
     \<lparr> job_id = jid, document_type = dt, file_path = fp,
       extracted_text = None, structured_data = None,
       processing_status = Pending, error_message = None, pdf_path = None,
       current_node = None, processing_metadata = [], retry_count = 0 \<rparr>"

section \<open>Paths (pathlib) and the supported formats (services/document_processor.py)\<close>

text \<open>\<^verbatim>\<open>s.split(c)\<close>: the pieces between the separators, empty pieces included.\<close>

fun split_on :: "char \<Rightarrow> string \<Rightarrow> string list" where
  "split_on c [] = [[]]"
| "split_on c (x # xs) =
     (if x = c then [] # split_on c xs
      else (case split_on c xs of [] \<Rightarrow> [[x]] | p # ps \<Rightarrow> (x # p) # ps))"

text \<open>
  The components of a POSIX path: empty components and \<^verbatim>\<open>.\<close> are dropped when
  the path is parsed.
\<close>

definition path_parts :: "string \<Rightarrow> string list" where
  "path_parts p = filter (\<lambda>x. x \<noteq> [] \<and> x \<noteq> ''.'') (split_on CHR ''/'' p)"

definition path_name :: "string \<Rightarrow> string" where
  "path_name p = (case path_parts p of [] \<Rightarrow> [] | x # xs \<Rightarrow> last (x # xs))"

text \<open>\<^verbatim>\<open>s.rfind(c)\<close>: the index of the last occurrence, or -1.\<close>

fun rfind :: "char \<Rightarrow> string \<Rightarrow> int" where
  "rfind c [] = -1"
| "rfind c (x # xs) =
     (let r = rfind c xs
      in if 0 \<le> r then r + 1 else if x = c then 0 else -1)"

text \<open>
  \<^verbatim>\<open>PurePath.suffix\<close>:
  \<^verbatim>\<open>i = name.rfind('.'); return name[i:] if 0 < i < len(name) - 1 else ''\<close>.
\<close>

definition path_suffix :: "string \<Rightarrow> string" where
  "path_suffix p =
     (let name = path_name p; i = rfind CHR ''.'' name
      in if 0 < i \<and> i < int (length name) - 1 then drop (nat i) name else [])"

text \<open>\<^verbatim>\<open>str.lower()\<close> on the ASCII letters; every other character is kept.\<close>

definition lower_char :: "char \<Rightarrow> char" where
  "lower_char c =
     (case map_of (zip ''ABCDEFGHIJKLMNOPQRSTUVWXYZ'' ''abcdefghijklmnopqrstuvwxyz'') c of
        None \<Rightarrow> c
      | Some d \<Rightarrow> d)"

definition lower :: "string \<Rightarrow> string" where
  "lower s = map lower_char s"

definition lstrip :: "char \<Rightarrow> string \<Rightarrow> string" where
  "lstrip c s = dropWhile (\<lambda>x. x = c) s"

text \<open>\<^verbatim>\<open>str(Path(a) / b)\<close> for a relative \<open>b\<close>.\<close>

fun join_with :: "string \<Rightarrow> string list \<Rightarrow> string" where
  "join_with sep [] = []"
| "join_with sep [x] = x"
| "join_with sep (x # y # ys) = x @ sep @ join_with sep (y # ys)"

definition path_join :: "string \<Rightarrow> string \<Rightarrow> string" where
  "path_join a b = join_with ''/'' (path_parts a @ path_parts b)"

definition get_supported_formats :: "string list" where
  "get_supported_formats =
     [''pdf'', ''docx'', ''pptx'', ''xlsx'', ''html'', ''png'', ''jpg'', ''jpeg'', ''tiff'', ''bmp'']"

definition validate_file_format :: "string \<Rightarrow> bool" where
  "validate_file_format fp =
     (let extension = lstrip CHR ''.'' (lower (path_suffix fp))
      in extension \<in> set get_supported_formats)"

section \<open>Collaborators\<close>

text \<open>
  A call either raises (carrying \<^verbatim>\<open>str(e)\<close>) or returns.
\<close>

datatype 'a outcome = Raises string | Returns 'a

text \<open>
  The dictionary returned by \<^verbatim>\<open>DocumentProcessor.process_document\<close>:
  \<^verbatim>\<open>success\<close> true with the text, or false with an optional \<^verbatim>\<open>error\<close> key.
  Optional keys are the ones the workflow reads with \<^verbatim>\<open>.get\<close>.
\<close>

datatype doc_result =
    DocSuccess string "pyval option" "py_dict option"
  | DocFailure "string option"

text \<open>The dictionary returned by \<^verbatim>\<open>ExtractionService.extract_from_document\<close>.\<close>

datatype extract_result =
    ExtractSuccess py_dict "pyval option"
  | ExtractFailure "string option"

text \<open>
  What the workflow object holds: the document processor, the extraction service,
  the report builder behind the PDF generator (\<^verbatim>\<open>doc.build\<close> for an output path),
  and whether the graph runtime itself raises out of \<^verbatim>\<open>workflow.invoke\<close>
  (the case the \<^verbatim>\<open>except\<close> clause of \<^verbatim>\<open>process_document\<close> handles).
\<close>

record collaborators =
  dp_validate_file_format :: "string \<Rightarrow> bool outcome"
  dp_process_document :: "string \<Rightarrow> document_type \<Rightarrow> doc_result outcome"
  es_extract_from_document :: "string option \<Rightarrow> document_type \<Rightarrow> extract_result outcome"
  pdf_build :: "string \<Rightarrow> py_dict \<Rightarrow> unit outcome"
  invoke_fault :: "string option"

text \<open>The files on disk, by path.\<close>

type_synonym disk = "string set"

text \<open>
  \<^verbatim>\<open>PDFGenerator.generate_pdf\<close> (services/pdf_generator.py): the output path is
  \<^verbatim>\<open>output_dir / f"employment_contract_{job_id}.pdf"\<close> (or \<^verbatim>\<open>payslip_...\<close>), the
  report is built at that path, and the path is returned once the build is done.
\<close>

definition pdf_filename :: "document_type \<Rightarrow> string \<Rightarrow> string" where
  "pdf_filename dt jid =
     (case dt of
        EmploymentContract \<Rightarrow> ''employment_contract_'' @ jid @ ''.pdf''
      | Payslip \<Rightarrow> ''payslip_'' @ jid @ ''.pdf'')"

definition generate_pdf ::
  "collaborators \<Rightarrow> disk \<Rightarrow> py_dict \<Rightarrow> document_type \<Rightarrow> string \<Rightarrow> string outcome \<times> disk" where
  "generate_pdf env fs document_data dt jid =
     (let filepath = path_join ''generated_pdfs'' (pdf_filename dt jid)
      in case pdf_build env filepath document_data of
           Raises e \<Rightarrow> (Raises e, fs)
         | Returns u \<Rightarrow> (Returns filepath, insert filepath fs))"

section \<open>Workflow nodes (workflows/processing_workflow.py)\<close>

definition validate_document_node :: "collaborators \<Rightarrow> ProcessingState \<Rightarrow> ProcessingState" where
  "validate_document_node env s =
     (let s1 = update_status Processing (Some ''validate_document'') s
      in case dp_validate_file_format env (file_path s1) of
           Raises e \<Rightarrow>
             update_status Failed (Some ''validate_document'')
               (s1\<lparr>error_message := Some (''Validation error: '' @ e)\<rparr>)
         | Returns ok \<Rightarrow>
             if \<not> ok then
               update_status Failed (Some ''validate_document'')
                 (s1\<lparr>error_message := Some (''Unsupported file format: '' @ file_path s1)\<rparr>)
             else
               s1\<lparr>processing_metadata :=
                    dict_set ''validation''
                      (PDict [(''file_exists'', PBool True),
                              (''format_supported'', PBool True),
                              (''validated_at'', PStr ''validate_document'')])
                      (processing_metadata s1)\<rparr>)"

definition process_document_node :: "collaborators \<Rightarrow> ProcessingState \<Rightarrow> ProcessingState" where
  "process_document_node env s =
     (let s1 = update_status Processing (Some ''process_document'') s
      in case dp_process_document env (file_path s1) (document_type s1) of
           Raises e \<Rightarrow>
             update_status Failed (Some ''process_document'')
               (s1\<lparr>error_message := Some (''Processing error: '' @ e)\<rparr>)
         | Returns (DocFailure err) \<Rightarrow>
             update_status Failed (Some ''process_document'')
               (s1\<lparr>error_message :=
                     Some (''Document processing failed: ''
                             @ (case err of None \<Rightarrow> ''Unknown error'' | Some m \<Rightarrow> m))\<rparr>)
         | Returns (DocSuccess text page_count metadata) \<Rightarrow>
             (let md = (case metadata of None \<Rightarrow> [] | Some m \<Rightarrow> m);
                  s2 = s1\<lparr>extracted_text := Some text\<rparr>
              in s2\<lparr>processing_metadata :=
                       dict_set ''document_processing''
                         (PDict [(''page_count'',
                                    (case page_count of None \<Rightarrow> PInt 1 | Some n \<Rightarrow> n)),
                                 (''format'', dict_get md ''format'' (PStr ''unknown'')),
                                 (''tables_found'', dict_get md ''tables_found'' (PInt 0)),
                                 (''processing_node'', PStr ''process_document'')])
                         (processing_metadata s2)\<rparr>))"

definition extract_data_node :: "collaborators \<Rightarrow> ProcessingState \<Rightarrow> ProcessingState" where
  "extract_data_node env s =
     (let s1 = update_status Processing (Some ''extract_data'') s
      in case es_extract_from_document env (extracted_text s1) (document_type s1) of
           Raises e \<Rightarrow>
             update_status Failed (Some ''extract_data'')
               (s1\<lparr>error_message := Some (''Extraction error: '' @ e)\<rparr>)
         | Returns (ExtractFailure details) \<Rightarrow>
             update_status Failed (Some ''extract_data'')
               (s1\<lparr>error_message :=
                     Some (''Data extraction failed: ''
                             @ (case details of None \<Rightarrow> ''Unknown error'' | Some m \<Rightarrow> m))\<rparr>)
         | Returns (ExtractSuccess data model_used) \<Rightarrow>
             (let s2 = s1\<lparr>structured_data := Some data\<rparr>
              in s2\<lparr>processing_metadata :=
                       dict_set ''extraction''
                         (PDict [(''model_used'',
                                    (case model_used of None \<Rightarrow> PStr ''unknown'' | Some m \<Rightarrow> m)),
                                 (''extraction_successful'', PBool True),
                                 (''extraction_node'', PStr ''extract_data'')])
                         (processing_metadata s2)\<rparr>))"

text \<open>
  \<^verbatim>\<open>not state.structured_data\<close> holds for \<^verbatim>\<open>None\<close> and for the empty dictionary.
\<close>

definition generate_pdf_node ::
  "collaborators \<Rightarrow> ProcessingState \<times> disk \<Rightarrow> ProcessingState \<times> disk" where
  "generate_pdf_node env w =
     (let s1 = update_status Processing (Some ''generate_pdf'') (fst w); fs = snd w
      in case structured_data s1 of
           None \<Rightarrow>
             (update_status Failed (Some ''generate_pdf'')
                (s1\<lparr>error_message := Some ''No structured data available for PDF generation''\<rparr>),
              fs)
         | Some data \<Rightarrow>
             if data = [] then
               (update_status Failed (Some ''generate_pdf'')
                  (s1\<lparr>error_message := Some ''No structured data available for PDF generation''\<rparr>),
                fs)
             else
               (case generate_pdf env fs data (document_type s1) (job_id s1) of
                  (Raises e, fs') \<Rightarrow>
                    (update_status Failed (Some ''generate_pdf'')
                       (s1\<lparr>error_message := Some (''PDF generation error: '' @ e)\<rparr>),
                     fs')
                | (Returns p, fs') \<Rightarrow>
                    (let s2 = s1\<lparr>pdf_path := Some p\<rparr>;
                         s3 = s2\<lparr>processing_metadata :=
                                    dict_set ''pdf_generation''
                                      (PDict [(''pdf_generated'', PBool True),
                                              (''pdf_path'', PStr p),
                                              (''generation_node'', PStr ''generate_pdf'')])
                                      (processing_metadata s2)\<rparr>
                     in (update_status Completed (Some ''generate_pdf'') s3, fs'))))"

definition max_retries :: int where
  "max_retries = 3"

text \<open>
  \<^verbatim>\<open>_handle_error_node\<close>: the retry branch is followed by the unconditional
  \<^verbatim>\<open>state.update_status("failed", "handle_error")\<close>.
\<close>

definition handle_error_node :: "ProcessingState \<Rightarrow> ProcessingState" where
  "handle_error_node s =
     (let s1 = (if retry_count s < max_retries
                then update_status Pending (Some ''retry'') (s\<lparr>retry_count := retry_count s + 1\<rparr>)
                else s);
          s2 = update_status Failed (Some ''handle_error'') s1
      in s2\<lparr>processing_metadata :=
               dict_set ''error_handling''
                 (PDict [(''final_error'',
                            (case error_message s2 of None \<Rightarrow> PNone | Some m \<Rightarrow> PStr m)),
                         (''retry_count'', PInt (retry_count s2)),
                         (''error_node'', PStr ''handle_error'')])
                 (processing_metadata s2)\<rparr>)"

section \<open>The graph\<close>

datatype node = ValidateDocument | ProcessDocument | ExtractData | GeneratePdf | HandleError

datatype route = Continue | Error

definition should_continue_after_validation :: "ProcessingState \<Rightarrow> route" where
  "should_continue_after_validation s = (if processing_status s \<noteq> Failed then Continue else Error)"

definition should_continue_after_processing :: "ProcessingState \<Rightarrow> route" where
  "should_continue_after_processing s = (if processing_status s \<noteq> Failed then Continue else Error)"

definition should_continue_after_extraction :: "ProcessingState \<Rightarrow> route" where
  "should_continue_after_extraction s = (if processing_status s \<noteq> Failed then Continue else Error)"

text \<open>
  The edges added in \<^verbatim>\<open>_build_workflow\<close>; \<open>None\<close> is \<^verbatim>\<open>END\<close>. The first three nodes
  have conditional edges, \<^verbatim>\<open>generate_pdf\<close> and \<^verbatim>\<open>handle_error\<close> have a plain edge to
  \<^verbatim>\<open>END\<close>.
\<close>

fun next_node :: "node \<Rightarrow> ProcessingState \<Rightarrow> node option" where
  "next_node ValidateDocument s =
     (case should_continue_after_validation s of
        Continue \<Rightarrow> Some ProcessDocument | Error \<Rightarrow> Some HandleError)"
| "next_node ProcessDocument s =
     (case should_continue_after_processing s of
        Continue \<Rightarrow> Some ExtractData | Error \<Rightarrow> Some HandleError)"
| "next_node ExtractData s =
     (case should_continue_after_extraction s of
        Continue \<Rightarrow> Some GeneratePdf | Error \<Rightarrow> Some HandleError)"
| "next_node GeneratePdf s = None"
| "next_node HandleError s = None"

fun exec_node :: "collaborators \<Rightarrow> node \<Rightarrow> ProcessingState \<times> disk \<Rightarrow> ProcessingState \<times> disk" where
  "exec_node env ValidateDocument w = (validate_document_node env (fst w), snd w)"
| "exec_node env ProcessDocument w = (process_document_node env (fst w), snd w)"
| "exec_node env ExtractData w = (extract_data_node env (fst w), snd w)"
| "exec_node env GeneratePdf w = generate_pdf_node env w"
| "exec_node env HandleError w = (handle_error_node (fst w), snd w)"

fun rank :: "node \<Rightarrow> nat" where
  "rank ValidateDocument = 4"
| "rank ProcessDocument = 3"
| "rank ExtractData = 2"
| "rank GeneratePdf = 1"
| "rank HandleError = 0"

text \<open>
  Running the graph from a node: the node executes, the edge out of it is
  followed, until \<^verbatim>\<open>END\<close>. The result lists every node run with the state it produced.
\<close>

function walk ::
  "collaborators \<Rightarrow> node \<Rightarrow> ProcessingState \<times> disk \<Rightarrow> (node \<times> ProcessingState \<times> disk) list" where
  "walk env n w =
     (let w' = exec_node env n w
      in (n, w') # (case next_node n (fst w') of None \<Rightarrow> [] | Some n' \<Rightarrow> walk env n' w'))"
  by pat_completeness auto
termination
proof (relation "measure (\<lambda>(env, n, w). rank n)")
  show "wf (measure (\<lambda>(env, n, w). rank n))"
    by simp
next
  fix env :: collaborators and n :: node and w x :: "ProcessingState \<times> disk" and n' :: node
  assume "next_node n (fst x) = Some n'"
  then have "rank n' < rank n"
    by (cases n) (auto split: route.splits)
  then show "((env, n', x), (env, n, w)) \<in> measure (\<lambda>(env, n, w). rank n)"
    by simp
qed

declare walk.simps [simp del]

text \<open>\<^verbatim>\<open>workflow.invoke\<close>: the graph starts at \<^verbatim>\<open>validate_document\<close> (the edge from \<^verbatim>\<open>START\<close>).\<close>

definition invoke :: "collaborators \<Rightarrow> ProcessingState \<times> disk \<Rightarrow> (ProcessingState \<times> disk) outcome" where
  "invoke env w =
     (case invoke_fault env of
        Some e \<Rightarrow> Raises e
      | None \<Rightarrow> Returns (snd (last (walk env ValidateDocument w))))"

text \<open>
  \<^verbatim>\<open>DocumentProcessingWorkflow.process_document\<close>: the graph works on a copy
  (\<^verbatim>\<open>model_dump\<close>), so the \<^verbatim>\<open>except\<close> clause marks the untouched initial state.
\<close>

definition process_document :: "collaborators \<Rightarrow> ProcessingState \<times> disk \<Rightarrow> ProcessingState \<times> disk" where
  "process_document env w =
     (case invoke env w of
        Returns w' \<Rightarrow> w'
      | Raises e \<Rightarrow>
          (update_status Failed (Some ''workflow_error'')
             ((fst w)\<lparr>error_message := Some (''Workflow error: '' @ e)\<rparr>),
           snd w))"

section \<open>The API layer (backend/main.py)\<close>

definition MAX_FILE_SIZE :: nat where
  "MAX_FILE_SIZE = 10 * 1024 * 1024"

definition ALLOWED_EXTENSIONS :: "string set" where
  "ALLOWED_EXTENSIONS = {''.pdf'', ''.docx'', ''.png'', ''.jpg'', ''.jpeg'', ''.tiff'', ''.bmp''}"

text \<open>
  What the endpoint reads from the uploaded file object: its \<^verbatim>\<open>filename\<close>, its
  \<^verbatim>\<open>size\<close> attribute (which \<^verbatim>\<open>validate_file_upload\<close> guards with \<^verbatim>\<open>hasattr\<close>: the
  attribute may be missing, or present and \<^verbatim>\<open>None\<close>), and the number of bytes that
  \<^verbatim>\<open>await file.read()\<close> returns.
\<close>

datatype size_attr = NoSizeAttr | SizeNone | Size nat

record UploadFile =
  filename :: "string option"
  file_size :: size_attr
  content_length :: nat

text \<open>
  The file object of an upload request: the multipart parser creates it with
  \<^verbatim>\<open>size=0\<close> and every write adds the number of bytes written, so its \<^verbatim>\<open>size\<close> is
  the length of the content that \<^verbatim>\<open>read\<close> returns.
\<close>

definition parsed_by_multipart :: "UploadFile \<Rightarrow> bool" where
  "parsed_by_multipart file = (file_size file = Size (content_length file))"

text \<open>
  An \<^verbatim>\<open>HTTPException\<close> with its status code, or any other exception (answered by
  the general handler). The \<^verbatim>\<open>detail\<close> texts are not modelled.
\<close>

datatype api_error = HTTPException nat | OtherException string

fun response_status :: "api_error \<Rightarrow> nat" where
  "response_status (HTTPException code) = code"
| "response_status (OtherException e) = 500"

definition validate_file_upload :: "UploadFile \<Rightarrow> api_error + unit" where
  "validate_file_upload file =
     (case filename file of
        None \<Rightarrow> Inl (HTTPException 400)
      | Some fn \<Rightarrow>
          if fn = [] then Inl (HTTPException 400)
          else if lower (path_suffix fn) \<notin> ALLOWED_EXTENSIONS then Inl (HTTPException 400)
          else (case file_size file of
                  NoSizeAttr \<Rightarrow> Inr ()
                | SizeNone \<Rightarrow> Inl (OtherException ''TypeError'')
                | Size n \<Rightarrow> if n > MAX_FILE_SIZE then Inl (HTTPException 400) else Inr ()))"

text \<open>
  The environment of the API process: the identifiers \<^verbatim>\<open>uuid.uuid4()\<close> yields, call
  after call, and whether reading the upload or writing the file raises.
\<close>

record api_env =
  uuid4 :: "nat \<Rightarrow> string"
  io_fault :: bool

text \<open>
  \<^verbatim>\<open>save_uploaded_file\<close>: the size check on the content raises
  \<^verbatim>\<open>HTTPException(400)\<close> inside the \<^verbatim>\<open>try\<close> block, whose \<^verbatim>\<open>except Exception\<close> clause
  turns every exception into \<^verbatim>\<open>HTTPException(500)\<close>. The suffix of a missing filename
  is computed before the \<^verbatim>\<open>try\<close> and raises a \<^verbatim>\<open>TypeError\<close>.
\<close>

definition save_uploaded_file ::
  "api_env \<Rightarrow> UploadFile \<Rightarrow> string \<Rightarrow> disk \<Rightarrow> (api_error + string) \<times> disk" where
  "save_uploaded_file env file jid fs =
     (case filename file of
        None \<Rightarrow> (Inl (OtherException ''TypeError''), fs)
      | Some fn \<Rightarrow>
          (let file_extension = lower (path_suffix fn);
               fp = path_join ''uploads'' (jid @ file_extension)
           in if io_fault env then (Inl (HTTPException 500), fs)
              else if content_length file > MAX_FILE_SIZE then (Inl (HTTPException 500), fs)
              else (Inr fp, insert fp fs)))"

text \<open>
  Constructing a \<^verbatim>\<open>ProcessingState\<close> validates its fields: \<^verbatim>\<open>job_id\<close> and \<^verbatim>\<open>file_path\<close>
  have \<^verbatim>\<open>min_length=1\<close>, \<^verbatim>\<open>document_type\<close> is one of the two literals.
\<close>

definition parse_document_type :: "string \<Rightarrow> document_type option" where
  "parse_document_type d =
     (if d = ''employment_contract'' then Some EmploymentContract
      else if d = ''payslip'' then Some Payslip
      else None)"

definition new_ProcessingState ::
  "string \<Rightarrow> string \<Rightarrow> string \<Rightarrow> status \<Rightarrow> string option \<Rightarrow> ProcessingState outcome" where
  "new_ProcessingState jid d fp st err =
     (if jid = [] \<or> fp = [] then Raises ''validation error''
      else (case parse_document_type d of
              None \<Rightarrow> Raises ''validation error''
            | Some dt \<Rightarrow>
                Returns ((initial_ProcessingState jid dt fp)
                           \<lparr>processing_status := st, error_message := err\<rparr>)))"

record UploadResponse =
  resp_job_id :: string
  resp_message :: string
  resp_file_path :: string

text \<open>
  The state of the API process: the job store, the files on disk, the queued
  background tasks, and how many identifiers have been generated.
\<close>

record app_state =
  job_storage :: "(string \<times> ProcessingState) list"
  files :: disk
  background_tasks :: "(string \<times> string \<times> string) list"
  uuid_calls :: nat

definition upload_document ::
  "api_env \<Rightarrow> UploadFile \<Rightarrow> string \<Rightarrow> app_state \<Rightarrow> (api_error + UploadResponse) \<times> app_state" where
  "upload_document env file d app =
     (if d \<notin> set [''employment_contract'', ''payslip''] then (Inl (HTTPException 400), app)
      else (case validate_file_upload file of
              Inl e \<Rightarrow> (Inl e, app)
            | Inr u \<Rightarrow>
                (let jid = uuid4 env (uuid_calls app);
                     app1 = app\<lparr>uuid_calls := uuid_calls app + 1\<rparr>
                 in case save_uploaded_file env file jid (files app1) of
                      (Inl e, fs) \<Rightarrow> (Inl (HTTPException 500), app1\<lparr>files := fs\<rparr>)
                    | (Inr fp, fs) \<Rightarrow>
                        (let app2 = app1\<lparr>files := fs,
                                         background_tasks :=
                                           background_tasks app1 @ [(jid, fp, d)]\<rparr>
                         in case new_ProcessingState jid d fp Pending None of
                              Raises e \<Rightarrow> (Inl (HTTPException 500), app2)
                            | Returns initial_state \<Rightarrow>
                                (Inr \<lparr>resp_job_id = jid,
                                      resp_message =
                                        ''Document uploaded successfully. Processing started.'',
                                      resp_file_path = fp\<rparr>,
                                 app2\<lparr>job_storage :=
                                        AList.update jid initial_state (job_storage app2)\<rparr>)))))"

text \<open>
  \<^verbatim>\<open>process_document_background\<close>; \<open>None\<close> for the workflow is the global
  \<^verbatim>\<open>workflow_instance\<close> never having been set. The \<^verbatim>\<open>except\<close> clause builds its error
  state with the same constructor, whose own failure is not caught.
\<close>

definition process_document_background ::
  "collaborators option \<Rightarrow> string \<Rightarrow> string \<Rightarrow> string \<Rightarrow> app_state \<Rightarrow> app_state outcome" where
  "process_document_background workflow_instance jid fp d app =
     (let attempt =
            (case new_ProcessingState jid d fp Pending None of
               Raises e \<Rightarrow> Raises e
             | Returns initial_state \<Rightarrow>
                 (case workflow_instance of
                    None \<Rightarrow> Raises ''NoneType object has no attribute process_document''
                  | Some workflow \<Rightarrow> Returns (process_document workflow (initial_state, files app))))
      in case attempt of
           Returns (final_state, fs) \<Rightarrow>
             Returns (app\<lparr>job_storage := AList.update jid final_state (job_storage app),
                          files := fs\<rparr>)
         | Raises e \<Rightarrow>
             (case new_ProcessingState jid d fp Failed (Some e) of
                Raises e' \<Rightarrow> Raises e'
              | Returns error_state \<Rightarrow>
                  Returns (app\<lparr>job_storage := AList.update jid error_state (job_storage app)\<rparr>)))"

text \<open>
  The identifiers \<^verbatim>\<open>str(uuid.uuid4())\<close> yields: 36 characters, hexadecimal digits
  and dashes.
\<close>

definition is_uuid_str :: "string \<Rightarrow> bool" where
  "is_uuid_str s = (length s = 36 \<and> list_all (\<lambda>c. c \<in> set ''0123456789abcdef-'') s)"

section \<open>Sample collaborators and jobs\<close>

text \<open>The validator of the real document processor.\<close>

definition real_validate :: "string \<Rightarrow> bool outcome" where
  "real_validate fp = Returns (validate_file_format fp)"

definition all_succeed :: collaborators where
  "all_succeed =
     \<lparr> dp_validate_file_format = real_validate,
       dp_process_document = (\<lambda>fp dt. Returns (DocSuccess ''Salary: 5000'' (Some (PInt 1)) None)),
       es_extract_from_document =
         (\<lambda>t dt. Returns (ExtractSuccess [(''employee_name'', PStr ''John Doe'')]
                                          (Some (PStr ''PayslipData'')))),
       pdf_build = (\<lambda>p d. Returns ()),
       invoke_fault = None \<rparr>"

definition extractor_always_fails :: collaborators where
  "extractor_always_fails =
     all_succeed\<lparr>es_extract_from_document :=
                   (\<lambda>t dt. Returns (ExtractFailure (Some ''model unavailable'')))\<rparr>"

definition renderer_raises :: collaborators where
  "renderer_raises = all_succeed\<lparr>pdf_build := (\<lambda>p d. Raises ''disk full'')\<rparr>"

definition everything_raises :: collaborators where
  "everything_raises =
     \<lparr> dp_validate_file_format = (\<lambda>fp. Raises ''v''),
       dp_process_document = (\<lambda>fp dt. Raises ''d''),
       es_extract_from_document = (\<lambda>t dt. Raises ''x''),
       pdf_build = (\<lambda>p d. Raises ''p''),
       invoke_fault = Some ''g'' \<rparr>"

definition sample_job :: ProcessingState where
  "sample_job = initial_ProcessingState ''j1'' Payslip ''uploads/j1.pdf''"

definition empty_app :: app_state where
  "empty_app = \<lparr> job_storage = [], files = {}, background_tasks = [], uuid_calls = 0 \<rparr>"

definition sample_api_env :: api_env where
  "sample_api_env =
     \<lparr> uuid4 = (\<lambda>k. ''3f2b8c1e-5d4a-4e6f-9a7b-0c1d2e3f4a5b''), io_fault = False \<rparr>"

definition exe_upload :: UploadFile where
  "exe_upload = \<lparr> filename = Some ''test.exe'', file_size = Size 10, content_length = 10 \<rparr>"

definition reported_oversize_upload :: UploadFile where
  "reported_oversize_upload =
     \<lparr> filename = Some ''large.pdf'', file_size = Size 10485761, content_length = 10485761 \<rparr>"

definition pdf_upload :: UploadFile where
  "pdf_upload = \<lparr> filename = Some ''Contract.PDF'', file_size = Size 16, content_length = 16 \<rparr>"

section \<open>Invariants\<close>

text \<open>A failed job carries an error message.\<close>

definition failed_has_message :: "ProcessingState \<Rightarrow> bool" where
  "failed_has_message s = (processing_status s \<noteq> Failed \<or> error_message s \<noteq> None)"

section \<open>Running the graph, node by node\<close>

lemma walk_HandleError: "walk env HandleError w = [(HandleError, exec_node env HandleError w)]"
  by (subst walk.simps) simp

lemma walk_GeneratePdf: "walk env GeneratePdf w = [(GeneratePdf, exec_node env GeneratePdf w)]"
  by (subst walk.simps) simp

lemma walk_ExtractData:
  "walk env ExtractData w =
     (ExtractData, exec_node env ExtractData w) #
       (if processing_status (fst (exec_node env ExtractData w)) \<noteq> Failed
        then walk env GeneratePdf (exec_node env ExtractData w)
        else walk env HandleError (exec_node env ExtractData w))"
  by (subst walk.simps) (simp add: should_continue_after_extraction_def Let_def)

lemma walk_ProcessDocument:
  "walk env ProcessDocument w =
     (ProcessDocument, exec_node env ProcessDocument w) #
       (if processing_status (fst (exec_node env ProcessDocument w)) \<noteq> Failed
        then walk env ExtractData (exec_node env ProcessDocument w)
        else walk env HandleError (exec_node env ProcessDocument w))"
  by (subst walk.simps) (simp add: should_continue_after_processing_def Let_def)

lemma walk_ValidateDocument:
  "walk env ValidateDocument w =
     (ValidateDocument, exec_node env ValidateDocument w) #
       (if processing_status (fst (exec_node env ValidateDocument w)) \<noteq> Failed
        then walk env ProcessDocument (exec_node env ValidateDocument w)
        else walk env HandleError (exec_node env ValidateDocument w))"
  by (subst walk.simps) (simp add: should_continue_after_validation_def Let_def)

lemmas walk_unfold = walk_ValidateDocument walk_ProcessDocument walk_ExtractData
  walk_GeneratePdf walk_HandleError

lemmas node_defs = validate_document_node_def process_document_node_def extract_data_node_def
  generate_pdf_node_def handle_error_node_def generate_pdf_def update_status_def Let_def

lemmas sample_defs = all_succeed_def extractor_always_fails_def renderer_raises_def
  everything_raises_def sample_job_def initial_ProcessingState_def real_validate_def

lemma sample_path_supported: "validate_file_format ''uploads/j1.pdf''"
  by (simp add: validate_file_format_def path_suffix_def path_name_def path_parts_def
      lower_def lower_char_def lstrip_def get_supported_formats_def Let_def)

lemma walk_nonempty: "walk env n w \<noteq> []"
  by (subst walk.simps) (simp add: Let_def)

lemma last_walk_in: "last (walk env n w) \<in> set (walk env n w)"
  by (simp add: walk_nonempty)

section \<open>The error handler and the retry counter\<close>

text \<open>
  Claim C1. The claim: below the maximum the error handler increments \<open>retry_count\<close>
  and puts the job back to \<open>pending\<close> for a fresh run, and only at the maximum does the
  job become \<open>failed\<close>; an extractor that always fails gives \<open>failed\<close> with
  \<open>retry_count = 3\<close>. The code: the handler leaves every state \<open>failed\<close>, whatever the
  counter, and its edge goes to the end of the graph; with an extractor that always
  fails the run visits validate, process, extract and the handler once, and ends
  \<open>failed\<close> with \<open>retry_count = 1\<close>.
\<close>

theorem handle_error_node_overwrites_pending:
  "processing_status (handle_error_node s) = Failed
   \<and> map fst (walk extractor_always_fails ValidateDocument (sample_job, {}))
       = [ValidateDocument, ProcessDocument, ExtractData, HandleError]
   \<and> processing_status (fst (process_document extractor_always_fails (sample_job, {}))) = Failed
   \<and> retry_count (fst (process_document extractor_always_fails (sample_job, {}))) = 1"
  by (simp add: process_document_def invoke_def walk_unfold node_defs sample_defs
      sample_path_supported max_retries_def)

text \<open>
  Claim C2. The claim: a failure of any step, the report step included, reaches the
  error handler. The code: the edge out of \<open>generate_pdf\<close> is unconditional and ends
  the run; when the report builder raises, the run visits the four steps and never
  the handler, and ends \<open>failed\<close> with the counter untouched.
\<close>

theorem generate_pdf_failure_bypasses_handler:
  "next_node GeneratePdf s = None
   \<and> map fst (walk renderer_raises ValidateDocument (sample_job, {}))
       = [ValidateDocument, ProcessDocument, ExtractData, GeneratePdf]
   \<and> processing_status (fst (process_document renderer_raises (sample_job, {}))) = Failed
   \<and> error_message (fst (process_document renderer_raises (sample_job, {})))
       = Some ''PDF generation error: disk full''
   \<and> retry_count (fst (process_document renderer_raises (sample_job, {}))) = 0"
  by (simp add: process_document_def invoke_def walk_unfold node_defs sample_defs
      sample_path_supported max_retries_def)

text \<open>
  Claim C3. The claim: a job that ends \<open>failed\<close> has an error message and either
  \<open>retry_count = max_retries\<close> or an unsupported file type. The code: with a supported
  file and an extractor that fails, the job ends \<open>failed\<close> with its message set and
  \<open>retry_count = 1\<close>.
\<close>

theorem failed_job_retry_count_below_max:
  "processing_status (fst (process_document extractor_always_fails (sample_job, {}))) = Failed
   \<and> error_message (fst (process_document extractor_always_fails (sample_job, {})))
       = Some ''Data extraction failed: model unavailable''
   \<and> retry_count (fst (process_document extractor_always_fails (sample_job, {}))) \<noteq> max_retries
   \<and> validate_file_format
        (file_path (fst (process_document extractor_always_fails (sample_job, {}))))"
  by (simp add: process_document_def invoke_def walk_unfold node_defs sample_defs
      sample_path_supported max_retries_def)

lemma exec_retry_same:
  "n \<noteq> HandleError \<Longrightarrow> retry_count (fst (exec_node env n w)) = retry_count (fst w)"
  by (cases n)
     (auto simp: node_defs split: outcome.splits doc_result.splits extract_result.splits
        option.splits prod.splits)

lemma handler_retry:
  "retry_count (handle_error_node s) =
     (if retry_count s < max_retries then retry_count s + 1 else retry_count s)"
  by (simp add: node_defs)

lemma exec_retry_mono: "retry_count (fst w) \<le> retry_count (fst (exec_node env n w))"
proof (cases "n = HandleError")
  case True
  then show ?thesis by (simp add: handler_retry)
next
  case False
  then show ?thesis by (simp add: exec_retry_same)
qed

lemma exec_retry_bound:
  "retry_count (fst w) \<le> max_retries \<Longrightarrow> retry_count (fst (exec_node env n w)) \<le> max_retries"
proof (cases "n = HandleError")
  case True
  assume "retry_count (fst w) \<le> max_retries"
  with True show ?thesis by (simp add: handler_retry)
next
  case False
  assume "retry_count (fst w) \<le> max_retries"
  with False show ?thesis by (simp add: exec_retry_same)
qed

lemma walk_retry_bound:
  "retry_count (fst w) \<le> max_retries \<Longrightarrow> lo \<le> retry_count (fst w) \<Longrightarrow>
   \<forall>x \<in> set (walk env n w).
      lo \<le> retry_count (fst (snd x)) \<and> retry_count (fst (snd x)) \<le> max_retries"
proof (induction env n w rule: walk.induct)
  case (1 env n w)
  let ?w' = "exec_node env n w"
  have b: "retry_count (fst ?w') \<le> max_retries"
    using "1.prems"(1) by (rule exec_retry_bound)
  have l: "lo \<le> retry_count (fst ?w')"
    using "1.prems"(2) exec_retry_mono[of w env n] by linarith
  show ?case
  proof (cases "next_node n (fst ?w')")
    case None
    then show ?thesis using b l by (subst walk.simps) (simp add: Let_def)
  next
    case (Some n')
    have "\<forall>x \<in> set (walk env n' ?w').
            lo \<le> retry_count (fst (snd x)) \<and> retry_count (fst (snd x)) \<le> max_retries"
      using "1.IH"[OF refl Some b l] .
    then show ?thesis using b l Some by (subst walk.simps) (simp add: Let_def)
  qed
qed

lemma walk_retry_sorted:
  "sorted (retry_count (fst w) # map (\<lambda>x. retry_count (fst (snd x))) (walk env n w))"
proof (induction env n w rule: walk.induct)
  case (1 env n w)
  let ?w' = "exec_node env n w"
  have m: "retry_count (fst w) \<le> retry_count (fst ?w')"
    by (rule exec_retry_mono)
  show ?case
  proof (cases "next_node n (fst ?w')")
    case None
    then show ?thesis using m by (subst walk.simps) (simp add: Let_def)
  next
    case (Some n')
    have "sorted (retry_count (fst ?w') # map (\<lambda>x. retry_count (fst (snd x))) (walk env n' ?w'))"
      using "1.IH"[OF refl Some] .
    then show ?thesis using m Some by (subst walk.simps) (auto simp add: Let_def)
  qed
qed

lemma process_document_retry:
  assumes "retry_count (fst w) \<le> max_retries"
  shows "retry_count (fst w) \<le> retry_count (fst (process_document env w))
         \<and> retry_count (fst (process_document env w)) \<le> max_retries"
proof (cases "invoke_fault env")
  case None
  have "\<forall>x \<in> set (walk env ValidateDocument w).
          retry_count (fst w) \<le> retry_count (fst (snd x))
          \<and> retry_count (fst (snd x)) \<le> max_retries"
    using walk_retry_bound[OF assms order_refl] .
  then show ?thesis using None last_walk_in[of env ValidateDocument w]
    by (simp add: process_document_def invoke_def)
next
  case (Some e)
  then show ?thesis using assms by (simp add: process_document_def invoke_def update_status_def)
qed

text \<open>
  Claim C4. A job starts with \<open>retry_count = 0\<close>; no node other than the error handler
  changes the counter; no node decreases it, so it is non-decreasing along the nodes
  of a run; and from a fresh job every state of the run, and the state
  \<open>process_document\<close> returns, has a counter between 0 and the maximum, 3.
\<close>

theorem retry_count_monotone_and_bounded:
  "max_retries = 3
   \<and> retry_count (initial_ProcessingState jid dt fp) = 0
   \<and> (n \<noteq> HandleError \<longrightarrow> retry_count (fst (exec_node env n w)) = retry_count (fst w))
   \<and> retry_count (fst w) \<le> retry_count (fst (exec_node env n w))
   \<and> sorted (retry_count (fst w) # map (\<lambda>x. retry_count (fst (snd x))) (walk env n w))
   \<and> (\<forall>x \<in> set (walk env ValidateDocument (initial_ProcessingState jid dt fp, fs)).
         0 \<le> retry_count (fst (snd x)) \<and> retry_count (fst (snd x)) \<le> max_retries)
   \<and> 0 \<le> retry_count (fst (process_document env (initial_ProcessingState jid dt fp, fs)))
   \<and> retry_count (fst (process_document env (initial_ProcessingState jid dt fp, fs)))
       \<le> max_retries"
proof -
  let ?s0 = "initial_ProcessingState jid dt fp"
  have z: "retry_count ?s0 = 0"
    by (simp add: initial_ProcessingState_def)
  have le: "retry_count (fst (?s0, fs)) \<le> max_retries"
    by (simp add: z max_retries_def)
  have ge: "0 \<le> retry_count (fst (?s0, fs))"
    by (simp add: z)
  have tr: "\<forall>x \<in> set (walk env ValidateDocument (?s0, fs)).
              0 \<le> retry_count (fst (snd x)) \<and> retry_count (fst (snd x)) \<le> max_retries"
    using walk_retry_bound[OF le ge] .
  have pd: "0 \<le> retry_count (fst (process_document env (?s0, fs)))
            \<and> retry_count (fst (process_document env (?s0, fs))) \<le> max_retries"
    using process_document_retry[OF le, of env] by (simp add: z)
  show ?thesis
    using z tr pd exec_retry_same[of n env w] exec_retry_mono[of w env n]
      walk_retry_sorted[of w env n]
    by (simp add: max_retries_def)
qed

theorem retry_count_monotone_and_bounded_witness:
  "ExtractData \<noteq> HandleError
   \<and> retry_count (fst (exec_node extractor_always_fails ExtractData (sample_job, {})))
       = retry_count sample_job
   \<and> last (walk extractor_always_fails ValidateDocument (sample_job, {}))
       \<in> set (walk extractor_always_fails ValidateDocument (sample_job, {}))
   \<and> retry_count (fst (snd (last (walk extractor_always_fails ValidateDocument (sample_job, {})))))
       = 1
   \<and> (1::int) \<le> max_retries
   \<and> retry_count (fst (process_document extractor_always_fails (sample_job, {}))) \<le> 3"
  using retry_count_monotone_and_bounded
          [of "''j1''" Payslip "''uploads/j1.pdf''" ExtractData extractor_always_fails
              "(sample_job, {})" "{}"]
  by (simp add: process_document_def invoke_def walk_unfold node_defs sample_defs
      sample_path_supported max_retries_def)

section \<open>Failed jobs\<close>

lemma step_failed_has_message:
  "n \<noteq> HandleError \<Longrightarrow> failed_has_message (fst (exec_node env n w))"
  by (cases n)
     (auto simp: failed_has_message_def node_defs
        split: outcome.splits doc_result.splits extract_result.splits option.splits prod.splits)

lemma handler_failed_has_message:
  "error_message s \<noteq> None \<Longrightarrow> failed_has_message (handle_error_node s)"
  by (auto simp: failed_has_message_def node_defs)

lemma next_node_HandleError:
  "next_node n s = Some HandleError \<Longrightarrow> processing_status s = Failed \<and> n \<noteq> HandleError"
  by (cases n)
     (auto simp: should_continue_after_validation_def should_continue_after_processing_def
        should_continue_after_extraction_def split: if_splits)

lemma walk_failed_has_message:
  "(n = HandleError \<longrightarrow> error_message (fst w) \<noteq> None) \<Longrightarrow>
   \<forall>x \<in> set (walk env n w). failed_has_message (fst (snd x))"
proof (induction env n w rule: walk.induct)
  case (1 env n w)
  let ?w' = "exec_node env n w"
  have ok: "failed_has_message (fst ?w')"
  proof (cases "n = HandleError")
    case True
    then show ?thesis using "1.prems" by (simp add: handler_failed_has_message)
  next
    case False
    then show ?thesis by (rule step_failed_has_message)
  qed
  show ?case
  proof (cases "next_node n (fst ?w')")
    case None
    then show ?thesis using ok by (subst walk.simps) (simp add: Let_def)
  next
    case (Some n')
    have pre: "n' = HandleError \<longrightarrow> error_message (fst ?w') \<noteq> None"
      using Some ok next_node_HandleError[of n "fst ?w'"]
      by (auto simp: failed_has_message_def)
    have "\<forall>x \<in> set (walk env n' ?w'). failed_has_message (fst (snd x))"
      using "1.IH"[OF refl Some pre] .
    then show ?thesis using ok Some by (subst walk.simps) (simp add: Let_def)
  qed
qed

lemma process_document_failed_has_message:
  "failed_has_message (fst (process_document env w))"
proof (cases "invoke_fault env")
  case None
  have "\<forall>x \<in> set (walk env ValidateDocument w). failed_has_message (fst (snd x))"
    by (rule walk_failed_has_message) simp
  then show ?thesis using None last_walk_in[of env ValidateDocument w]
    by (simp add: process_document_def invoke_def)
next
  case (Some e)
  then show ?thesis
    by (simp add: process_document_def invoke_def update_status_def failed_has_message_def)
qed

lemma new_ProcessingState_failed:
  "new_ProcessingState jid d fp Failed (Some e) = Returns s \<Longrightarrow> failed_has_message s"
  by (auto simp: new_ProcessingState_def failed_has_message_def split: if_splits option.splits)

lemma process_document_failed_has_message':
  "process_document env w = (s, f) \<Longrightarrow> failed_has_message s"
  using process_document_failed_has_message[of env w] by simp

lemma background_failed_has_message:
  "process_document_background wi jid fp d app = Returns app' \<Longrightarrow>
   \<exists>s. map_of (job_storage app') jid = Some s \<and> failed_has_message s"
  by (auto simp: process_document_background_def Let_def update_conv'
      split: outcome.splits option.splits prod.splits
      dest: new_ProcessingState_failed process_document_failed_has_message')

text \<open>
  Claim C5. Every state a step node produces, every state produced along a run of
  the graph (the error handler included), the state \<open>process_document\<close> returns and
  the state the background task stores satisfy: status \<open>failed\<close> implies
  \<open>error_message\<close> is set.
\<close>

theorem failed_state_has_error_message:
  "(n \<noteq> HandleError \<longrightarrow> failed_has_message (fst (exec_node env n w)))
   \<and> (\<forall>x \<in> set (walk env ValidateDocument w). failed_has_message (fst (snd x)))
   \<and> failed_has_message (fst (process_document env w))
   \<and> (process_document_background wi jid fp d app = Returns app' \<longrightarrow>
        (\<exists>s. map_of (job_storage app') jid = Some s \<and> failed_has_message s))"
  using step_failed_has_message[of n env w] walk_failed_has_message[of ValidateDocument w env]
    process_document_failed_has_message[of env w]
    background_failed_has_message[of wi jid fp d app app']
  by simp


theorem failed_state_has_error_message_witness:
  "ExtractData \<noteq> HandleError
   \<and> processing_status (fst (exec_node extractor_always_fails ExtractData (sample_job, {}))) = Failed
   \<and> error_message (fst (exec_node extractor_always_fails ExtractData (sample_job, {})))
        = Some ''Data extraction failed: model unavailable''
   \<and> last (walk extractor_always_fails ValidateDocument (sample_job, {}))
        \<in> set (walk extractor_always_fails ValidateDocument (sample_job, {}))
   \<and> processing_status (fst (process_document extractor_always_fails (sample_job, {}))) = Failed
   \<and> error_message (fst (process_document extractor_always_fails (sample_job, {}))) \<noteq> None
   \<and> process_document_background None ''j1'' ''uploads/j1.pdf'' ''payslip'' empty_app
        = Returns (empty_app\<lparr>job_storage :=
             [(''j1'', (initial_ProcessingState ''j1'' Payslip ''uploads/j1.pdf'')
                         \<lparr>processing_status := Failed,
                          error_message :=
                            Some ''NoneType object has no attribute process_document''\<rparr>)]\<rparr>)
   \<and> (\<exists>s. map_of (job_storage (empty_app\<lparr>job_storage :=
             [(''j1'', (initial_ProcessingState ''j1'' Payslip ''uploads/j1.pdf'')
                         \<lparr>processing_status := Failed,
                          error_message :=
                            Some ''NoneType object has no attribute process_document''\<rparr>)]\<rparr>))
                ''j1'' = Some s
            \<and> processing_status s = Failed \<and> failed_has_message s)"
  using failed_state_has_error_message [of ExtractData extractor_always_fails "(sample_job, {})" None "''j1''"
              "''uploads/j1.pdf''" "''payslip''" empty_app
              "empty_app\<lparr>job_storage :=
                 [(''j1'', (initial_ProcessingState ''j1'' Payslip ''uploads/j1.pdf'')
                         \<lparr>processing_status := Failed,
                          error_message :=
                            Some ''NoneType object has no attribute process_document''\<rparr>)]\<rparr>"]
  by (simp add: process_document_def invoke_def walk_unfold node_defs sample_defs
      sample_path_supported max_retries_def process_document_background_def
      new_ProcessingState_def parse_document_type_def empty_app_def failed_has_message_def)

section \<open>Completed jobs\<close>

lemma exec_not_completed:
  "n \<noteq> GeneratePdf \<Longrightarrow> processing_status (fst (exec_node env n w)) \<noteq> Completed"
  by (cases n)
     (auto simp: node_defs split: outcome.splits doc_result.splits extract_result.splits
        option.splits prod.splits)

lemma generate_pdf_node_completed:
  assumes c: "processing_status (fst (generate_pdf_node env w)) = Completed"
  shows "\<exists>data p. structured_data (fst w) = Some data
     \<and> generate_pdf env (snd w) data (document_type (fst w)) (job_id (fst w))
         = (Returns p, snd (generate_pdf_node env w))
     \<and> pdf_path (fst (generate_pdf_node env w)) = Some p
     \<and> p \<in> snd (generate_pdf_node env w)"
proof (cases "structured_data (fst w)")
  case None
  then show ?thesis using c by (simp add: node_defs)
next
  case (Some data)
  let ?p = "path_join ''generated_pdfs'' (pdf_filename (document_type (fst w)) (job_id (fst w)))"
  have ne: "data \<noteq> []"
    using c Some by (auto simp: node_defs)
  show ?thesis
  proof (cases "pdf_build env ?p data")
    case (Raises e)
    then show ?thesis using c Some ne by (simp add: node_defs)
  next
    case (Returns u)
    have "generate_pdf env (snd w) data (document_type (fst w)) (job_id (fst w))
            = (Returns ?p, snd (generate_pdf_node env w))
          \<and> pdf_path (fst (generate_pdf_node env w)) = Some ?p
          \<and> ?p \<in> snd (generate_pdf_node env w)"
      using Some ne Returns by (simp add: node_defs)
    then show ?thesis using Some by blast
  qed
qed

lemma walk_entries:
  "x \<in> set (walk env n w) \<Longrightarrow> \<exists>w0. snd x = exec_node env (fst x) w0"
proof (induction env n w rule: walk.induct)
  case (1 env n w)
  let ?w' = "exec_node env n w"
  show ?case
  proof (cases "next_node n (fst ?w')")
    case None
    then have "walk env n w = [(n, ?w')]" by (subst walk.simps) (simp add: Let_def)
    then have "snd x = exec_node env (fst x) w" using "1.prems" by simp
    then show ?thesis by blast
  next
    case (Some n')
    then have "walk env n w = (n, ?w') # walk env n' ?w'" by (subst walk.simps) (simp add: Let_def)
    then have "x = (n, ?w') \<or> x \<in> set (walk env n' ?w')" using "1.prems" by simp
    then show ?thesis
    proof
      assume "x = (n, ?w')"
      then have "snd x = exec_node env (fst x) w" by simp
      then show ?thesis by blast
    next
      assume "x \<in> set (walk env n' ?w')"
      then show ?thesis using "1.IH"[OF refl Some] by simp
    qed
  qed
qed

lemma process_document_completed:
  assumes "processing_status (fst (process_document env w)) = Completed"
  shows "\<exists>w0. process_document env w = generate_pdf_node env w0"
proof (cases "invoke_fault env")
  case (Some e)
  then show ?thesis using assms by (simp add: process_document_def invoke_def update_status_def)
next
  case None
  let ?x = "last (walk env ValidateDocument w)"
  have pd: "process_document env w = snd ?x"
    using None by (simp add: process_document_def invoke_def)
  obtain w0 where w0: "snd ?x = exec_node env (fst ?x) w0"
    using walk_entries[OF last_walk_in] by blast
  have "fst ?x = GeneratePdf"
    using exec_not_completed[of "fst ?x" env w0] assms pd w0 by auto
  then have "process_document env w = generate_pdf_node env w0" using pd w0 by simp
  then show ?thesis by blast
qed

text \<open>
  Claim C6. No node other than \<open>generate_pdf\<close> produces status \<open>completed\<close>; when
  \<open>generate_pdf\<close> produces it, \<open>pdf_path\<close> is the path the PDF generator returned and
  that file is on disk in the resulting world; and a \<open>completed\<close> result of
  \<open>process_document\<close> is the output of the \<open>generate_pdf\<close> node, with \<open>pdf_path\<close> set
  to a file on disk.
\<close>

theorem completed_state_has_report:
  "(n \<noteq> GeneratePdf \<longrightarrow> processing_status (fst (exec_node env n w)) \<noteq> Completed)
   \<and> (processing_status (fst (generate_pdf_node env w)) = Completed \<longrightarrow>
        (\<exists>data p. structured_data (fst w) = Some data
           \<and> generate_pdf env (snd w) data (document_type (fst w)) (job_id (fst w))
               = (Returns p, snd (generate_pdf_node env w))
           \<and> pdf_path (fst (generate_pdf_node env w)) = Some p
           \<and> p \<in> snd (generate_pdf_node env w)))
   \<and> (processing_status (fst (process_document env w)) = Completed \<longrightarrow>
        (\<exists>w0 p. process_document env w = generate_pdf_node env w0
           \<and> pdf_path (fst (process_document env w)) = Some p
           \<and> p \<in> snd (process_document env w)))"
proof -
  have "processing_status (fst (process_document env w)) = Completed \<longrightarrow>
        (\<exists>w0 p. process_document env w = generate_pdf_node env w0
           \<and> pdf_path (fst (process_document env w)) = Some p
           \<and> p \<in> snd (process_document env w))"
  proof
    assume c: "processing_status (fst (process_document env w)) = Completed"
    then obtain w0 where w0: "process_document env w = generate_pdf_node env w0"
      using process_document_completed by blast
    then have "processing_status (fst (generate_pdf_node env w0)) = Completed" using c by simp
    from generate_pdf_node_completed[OF this]
    obtain p where "pdf_path (fst (generate_pdf_node env w0)) = Some p"
      and "p \<in> snd (generate_pdf_node env w0)"
      by blast
    then have "process_document env w = generate_pdf_node env w0
           \<and> pdf_path (fst (process_document env w)) = Some p
           \<and> p \<in> snd (process_document env w)"
      using w0 by simp
    then show "\<exists>w0 p. process_document env w = generate_pdf_node env w0
           \<and> pdf_path (fst (process_document env w)) = Some p
           \<and> p \<in> snd (process_document env w)"
      by blast
  qed
  then show ?thesis
    using exec_not_completed[of n env w] generate_pdf_node_completed[of env w] by blast
qed

theorem completed_state_has_report_witness:
  "ValidateDocument \<noteq> GeneratePdf
   \<and> processing_status (fst (process_document all_succeed (sample_job, {}))) = Completed
   \<and> pdf_path (fst (process_document all_succeed (sample_job, {})))
       = Some ''generated_pdfs/payslip_j1.pdf''
   \<and> ''generated_pdfs/payslip_j1.pdf'' \<in> snd (process_document all_succeed (sample_job, {}))
   \<and> processing_status (fst (generate_pdf_node all_succeed
        (sample_job\<lparr>structured_data := Some [(''employee_name'', PStr ''John Doe'')]\<rparr>, {})))
       = Completed"
  using completed_state_has_report [of ValidateDocument all_succeed "(sample_job, {})"]
        completed_state_has_report [of ValidateDocument all_succeed
              "(sample_job\<lparr>structured_data := Some [(''employee_name'', PStr ''John Doe'')]\<rparr>, {})"]
  by (simp add: process_document_def invoke_def walk_unfold node_defs sample_defs
      sample_path_supported pdf_filename_def path_join_def path_parts_def)

section \<open>Exceptions at the step boundaries\<close>

text \<open>
  Claim C7. Whatever the collaborators do, each step function and \<open>process_document\<close>
  return a state (they are total functions into \<open>ProcessingState\<close>); when the
  collaborator of a step raises, the step returns the state with status \<open>failed\<close> and
  the exception text in \<open>error_message\<close>, and when the graph runtime raises,
  \<open>process_document\<close> returns the initial state so marked.
\<close>

theorem collaborator_exception_becomes_failure:
  "(dp_validate_file_format env (file_path s) = Raises e \<longrightarrow>
      processing_status (validate_document_node env s) = Failed
      \<and> error_message (validate_document_node env s) = Some (''Validation error: '' @ e))
   \<and> (dp_process_document env (file_path s) (document_type s) = Raises e \<longrightarrow>
      processing_status (process_document_node env s) = Failed
      \<and> error_message (process_document_node env s) = Some (''Processing error: '' @ e))
   \<and> (es_extract_from_document env (extracted_text s) (document_type s) = Raises e \<longrightarrow>
      processing_status (extract_data_node env s) = Failed
      \<and> error_message (extract_data_node env s) = Some (''Extraction error: '' @ e))
   \<and> (structured_data s = Some data \<and> data \<noteq> []
        \<and> fst (generate_pdf env fs data (document_type s) (job_id s)) = Raises e \<longrightarrow>
      processing_status (fst (generate_pdf_node env (s, fs))) = Failed
      \<and> error_message (fst (generate_pdf_node env (s, fs))) = Some (''PDF generation error: '' @ e))
   \<and> (invoke env (s, fs) = Raises e \<longrightarrow>
      process_document env (s, fs)
        = (update_status Failed (Some ''workflow_error'')
             (s\<lparr>error_message := Some (''Workflow error: '' @ e)\<rparr>), fs)
      \<and> processing_status (fst (process_document env (s, fs))) = Failed
      \<and> error_message (fst (process_document env (s, fs))) = Some (''Workflow error: '' @ e))"
proof -
  have v: "dp_validate_file_format env (file_path s) = Raises e \<longrightarrow>
      processing_status (validate_document_node env s) = Failed
      \<and> error_message (validate_document_node env s) = Some (''Validation error: '' @ e)"
    by (simp add: node_defs)
  have p: "dp_process_document env (file_path s) (document_type s) = Raises e \<longrightarrow>
      processing_status (process_document_node env s) = Failed
      \<and> error_message (process_document_node env s) = Some (''Processing error: '' @ e)"
    by (simp add: node_defs)
  have x: "es_extract_from_document env (extracted_text s) (document_type s) = Raises e \<longrightarrow>
      processing_status (extract_data_node env s) = Failed
      \<and> error_message (extract_data_node env s) = Some (''Extraction error: '' @ e)"
    by (simp add: node_defs)
  have g: "structured_data s = Some data \<and> data \<noteq> []
        \<and> fst (generate_pdf env fs data (document_type s) (job_id s)) = Raises e \<longrightarrow>
      processing_status (fst (generate_pdf_node env (s, fs))) = Failed
      \<and> error_message (fst (generate_pdf_node env (s, fs))) = Some (''PDF generation error: '' @ e)"
    by (auto simp: node_defs split: outcome.splits)
  have w: "invoke env (s, fs) = Raises e \<longrightarrow>
      process_document env (s, fs)
        = (update_status Failed (Some ''workflow_error'')
             (s\<lparr>error_message := Some (''Workflow error: '' @ e)\<rparr>), fs)
      \<and> processing_status (fst (process_document env (s, fs))) = Failed
      \<and> error_message (fst (process_document env (s, fs))) = Some (''Workflow error: '' @ e)"
    by (simp add: process_document_def update_status_def)
  from v p x g w show ?thesis by blast
qed

theorem collaborator_exception_becomes_failure_witness:
  "dp_validate_file_format everything_raises (file_path sample_job) = Raises ''v''
   \<and> error_message (validate_document_node everything_raises sample_job)
       = Some ''Validation error: v''
   \<and> dp_process_document everything_raises (file_path sample_job) (document_type sample_job)
       = Raises ''d''
   \<and> error_message (process_document_node everything_raises sample_job)
       = Some ''Processing error: d''
   \<and> processing_status (extract_data_node everything_raises sample_job) = Failed
   \<and> fst (generate_pdf everything_raises {} [(''k'', PNone)] Payslip ''j1'') = Raises ''p''
   \<and> error_message (fst (generate_pdf_node everything_raises
                            (sample_job\<lparr>structured_data := Some [(''k'', PNone)]\<rparr>, {})))
       = Some ''PDF generation error: p''
   \<and> invoke everything_raises (sample_job, {}) = Raises ''g''
   \<and> processing_status (fst (process_document everything_raises (sample_job, {}))) = Failed
   \<and> error_message (fst (process_document everything_raises (sample_job, {})))
       = Some ''Workflow error: g''"
  using collaborator_exception_becomes_failure [of everything_raises sample_job "''v''" "[(''k'', PNone)]" "{}"]
        collaborator_exception_becomes_failure [of everything_raises sample_job "''d''" "[(''k'', PNone)]" "{}"]
        collaborator_exception_becomes_failure [of everything_raises sample_job "''x''" "[(''k'', PNone)]" "{}"]
        collaborator_exception_becomes_failure [of everything_raises "sample_job\<lparr>structured_data := Some [(''k'', PNone)]\<rparr>"
               "''p''" "[(''k'', PNone)]" "{}"]
        collaborator_exception_becomes_failure [of everything_raises sample_job "''g''" "[(''k'', PNone)]" "{}"]
  by (simp add: sample_defs invoke_def node_defs process_document_def)

section \<open>What a step leaves unchanged\<close>

text \<open>
  Claim C9. For every input state and every collaborator behaviour, the extract-text
  step (\<open>process_document\<close>) leaves \<open>job_id\<close>, \<open>document_type\<close>, \<open>file_path\<close>,
  \<open>structured_data\<close>, \<open>pdf_path\<close> and \<open>retry_count\<close> unchanged, and likewise each of
  the other three steps leaves every field unchanged except its own output field,
  the status, the error message, the current node and the metadata; each step
  stores its own name in \<open>current_node\<close> (its first action, before the collaborator is called).
\<close>

theorem step_frame:
  "(let t = process_document_node env s
    in job_id t = job_id s \<and> document_type t = document_type s \<and> file_path t = file_path s
       \<and> structured_data t = structured_data s \<and> pdf_path t = pdf_path s
       \<and> retry_count t = retry_count s \<and> current_node t = Some ''process_document'')
   \<and> (let t = validate_document_node env s
    in job_id t = job_id s \<and> document_type t = document_type s \<and> file_path t = file_path s
       \<and> extracted_text t = extracted_text s \<and> structured_data t = structured_data s
       \<and> pdf_path t = pdf_path s \<and> retry_count t = retry_count s
       \<and> current_node t = Some ''validate_document'')
   \<and> (let t = extract_data_node env s
    in job_id t = job_id s \<and> document_type t = document_type s \<and> file_path t = file_path s
       \<and> extracted_text t = extracted_text s \<and> pdf_path t = pdf_path s
       \<and> retry_count t = retry_count s \<and> current_node t = Some ''extract_data'')
   \<and> (let t = fst (generate_pdf_node env (s, fs))
    in job_id t = job_id s \<and> document_type t = document_type s \<and> file_path t = file_path s
       \<and> extracted_text t = extracted_text s \<and> structured_data t = structured_data s
       \<and> retry_count t = retry_count s \<and> current_node t = Some ''generate_pdf'')"
proof -
  have p: "let t = process_document_node env s
    in job_id t = job_id s \<and> document_type t = document_type s \<and> file_path t = file_path s
       \<and> structured_data t = structured_data s \<and> pdf_path t = pdf_path s
       \<and> retry_count t = retry_count s \<and> current_node t = Some ''process_document''"
    by (simp add: node_defs split: outcome.splits doc_result.splits)
  have v: "let t = validate_document_node env s
    in job_id t = job_id s \<and> document_type t = document_type s \<and> file_path t = file_path s
       \<and> extracted_text t = extracted_text s \<and> structured_data t = structured_data s
       \<and> pdf_path t = pdf_path s \<and> retry_count t = retry_count s
       \<and> current_node t = Some ''validate_document''"
    by (simp add: node_defs split: outcome.splits)
  have x: "let t = extract_data_node env s
    in job_id t = job_id s \<and> document_type t = document_type s \<and> file_path t = file_path s
       \<and> extracted_text t = extracted_text s \<and> pdf_path t = pdf_path s
       \<and> retry_count t = retry_count s \<and> current_node t = Some ''extract_data''"
    by (simp add: node_defs split: outcome.splits extract_result.splits)
  have g: "let t = fst (generate_pdf_node env (s, fs))
    in job_id t = job_id s \<and> document_type t = document_type s \<and> file_path t = file_path s
       \<and> extracted_text t = extracted_text s \<and> structured_data t = structured_data s
       \<and> retry_count t = retry_count s \<and> current_node t = Some ''generate_pdf''"
    by (simp add: node_defs split: outcome.splits option.splits)
  from p v x g show ?thesis by blast
qed

section \<open>Upload validation\<close>

lemmas path_defs = path_suffix_def path_name_def path_parts_def lower_def lower_char_def
  lstrip_def Let_def

lemmas upload_defs = upload_document_def validate_file_upload_def save_uploaded_file_def
  MAX_FILE_SIZE_def ALLOWED_EXTENSIONS_def new_ProcessingState_def parse_document_type_def
  path_join_def


lemma validate_rejects:
  "(case filename file of None \<Rightarrow> True | Some fn \<Rightarrow> lower (path_suffix fn) \<notin> ALLOWED_EXTENSIONS)
     \<or> (\<exists>n. file_size file = Size n \<and> MAX_FILE_SIZE < n)
   \<Longrightarrow> validate_file_upload file = Inl (HTTPException 400)"
  by (auto simp: validate_file_upload_def split: option.splits size_attr.splits)

text \<open>
  Claim C8. For every upload request (the file object as the multipart parser
  builds it): if \<open>document_type\<close> is not one of the two supported types, or the
  file's extension is not in the allowed set (a missing filename included), or the
  file exceeds the maximum size, then the upload fails with status 400 and the
  application state is unchanged: no identifier is generated and no entry is added
  to the job store (nor is a file saved or a task queued).
\<close>

theorem upload_rejected_before_job_creation:
  "parsed_by_multipart file
   \<and> (d \<notin> {''employment_contract'', ''payslip''}
        \<or> (case filename file of None \<Rightarrow> True
            | Some fn \<Rightarrow> lower (path_suffix fn) \<notin> ALLOWED_EXTENSIONS)
        \<or> MAX_FILE_SIZE < content_length file)
   \<longrightarrow> upload_document env file d app = (Inl (HTTPException 400), app)
       \<and> response_status (HTTPException 400) = 400
       \<and> uuid_calls (snd (upload_document env file d app)) = uuid_calls app
       \<and> job_storage (snd (upload_document env file d app)) = job_storage app"
proof
  assume h: "parsed_by_multipart file
   \<and> (d \<notin> {''employment_contract'', ''payslip''}
        \<or> (case filename file of None \<Rightarrow> True
            | Some fn \<Rightarrow> lower (path_suffix fn) \<notin> ALLOWED_EXTENSIONS)
        \<or> MAX_FILE_SIZE < content_length file)"
  have r: "upload_document env file d app = (Inl (HTTPException 400), app)"
  proof (cases "d \<notin> {''employment_contract'', ''payslip''}")
    case True
    then show ?thesis by (simp add: upload_document_def)
  next
    case False
    have sz: "file_size file = Size (content_length file)"
      using h by (simp add: parsed_by_multipart_def)
    have "(case filename file of None \<Rightarrow> True
           | Some fn \<Rightarrow> lower (path_suffix fn) \<notin> ALLOWED_EXTENSIONS)
          \<or> (\<exists>n. file_size file = Size n \<and> MAX_FILE_SIZE < n)"
      using h False sz by blast
    then have "validate_file_upload file = Inl (HTTPException 400)"
      by (rule validate_rejects)
    then show ?thesis using False by (simp add: upload_document_def)
  qed
  then show "upload_document env file d app = (Inl (HTTPException 400), app)
       \<and> response_status (HTTPException 400) = 400
       \<and> uuid_calls (snd (upload_document env file d app)) = uuid_calls app
       \<and> job_storage (snd (upload_document env file d app)) = job_storage app"
    by simp
qed

theorem upload_rejected_before_job_creation_witness:
  "parsed_by_multipart exe_upload
   \<and> lower (path_suffix ''test.exe'') \<notin> ALLOWED_EXTENSIONS
   \<and> upload_document sample_api_env exe_upload ''employment_contract'' empty_app
       = (Inl (HTTPException 400), empty_app)
   \<and> parsed_by_multipart pdf_upload
   \<and> ''invoice'' \<notin> {''employment_contract'', ''payslip''}
   \<and> upload_document sample_api_env pdf_upload ''invoice'' empty_app
       = (Inl (HTTPException 400), empty_app)
   \<and> parsed_by_multipart reported_oversize_upload
   \<and> MAX_FILE_SIZE < content_length reported_oversize_upload
   \<and> upload_document sample_api_env reported_oversize_upload ''payslip'' empty_app
       = (Inl (HTTPException 400), empty_app)
   \<and> uuid_calls
        (snd (upload_document sample_api_env reported_oversize_upload ''payslip'' empty_app)) = 0
   \<and> job_storage
        (snd (upload_document sample_api_env reported_oversize_upload ''payslip'' empty_app)) = []"
  using upload_rejected_before_job_creation
          [of exe_upload "''employment_contract''" sample_api_env empty_app]
        upload_rejected_before_job_creation
          [of pdf_upload "''invoice''" sample_api_env empty_app]
        upload_rejected_before_job_creation
          [of reported_oversize_upload "''payslip''" sample_api_env empty_app]
  by (simp add: upload_defs path_defs sample_api_env_def empty_app_def parsed_by_multipart_def
      exe_upload_def pdf_upload_def reported_oversize_upload_def)

section \<open>Uploaded files and the supported formats\<close>

lemma split_on_no_sep: "c \<notin> set s \<Longrightarrow> split_on c s = [s]"
  by (induction s) auto

lemma split_on_append: "c \<notin> set a \<Longrightarrow> split_on c (a @ c # b) = a # split_on c b"
  by (induction a) auto

lemma rfind_absent: "c \<notin> set s \<Longrightarrow> rfind c s = -1"
  by (induction s) (auto simp: Let_def)

lemma rfind_append: "c \<notin> set r \<Longrightarrow> rfind c (a @ c # r) = int (length a)"
  by (induction a) (auto simp: Let_def rfind_absent)

lemma allowed_extension_shape:
  assumes "e \<in> ALLOWED_EXTENSIONS"
  shows "\<exists>r. e = CHR ''.'' # r \<and> r \<noteq> [] \<and> CHR ''.'' \<notin> set r \<and> CHR ''/'' \<notin> set r
           \<and> lower e = e \<and> r \<in> set get_supported_formats"
proof -
  have "e = ''.pdf'' \<or> e = ''.docx'' \<or> e = ''.png'' \<or> e = ''.jpg'' \<or> e = ''.jpeg''
        \<or> e = ''.tiff'' \<or> e = ''.bmp''"
    using assms by (simp add: ALLOWED_EXTENSIONS_def)
  then show ?thesis
    by (elim disjE) (simp_all add: get_supported_formats_def lower_def lower_char_def)
qed

lemma uuid_alphabet:
  "CHR ''/'' \<notin> set ''0123456789abcdef-'' \<and> CHR ''.'' \<notin> set ''0123456789abcdef-''"
  by simp

lemma is_uuid_str_chars:
  assumes "is_uuid_str s"
  shows "s \<noteq> [] \<and> CHR ''/'' \<notin> set s \<and> CHR ''.'' \<notin> set s"
proof -
  have len: "length s = 36" and all: "\<forall>c \<in> set s. c \<in> set ''0123456789abcdef-''"
    using assms by (simp_all add: is_uuid_str_def list_all_iff)
  have "s \<noteq> []" using len by auto
  moreover have "CHR ''/'' \<notin> set s" using all uuid_alphabet by blast
  moreover have "CHR ''.'' \<notin> set s" using all uuid_alphabet by blast
  ultimately show ?thesis by simp
qed

lemma stored_path:
  assumes jid: "jid \<noteq> []" "CHR ''/'' \<notin> set jid"
    and r: "CHR ''/'' \<notin> set r" "r \<noteq> []"
  shows "path_join ''uploads'' (jid @ CHR ''.'' # r) = ''uploads/'' @ jid @ CHR ''.'' # r"
proof -
  have ns: "CHR ''/'' \<notin> set (jid @ CHR ''.'' # r)" using jid r by simp
  have "jid @ CHR ''.'' # r \<noteq> ''.''" using jid by (cases jid) auto
  then have "path_parts (jid @ CHR ''.'' # r) = [jid @ CHR ''.'' # r]"
    using split_on_no_sep[OF ns] by (simp add: path_parts_def)
  moreover have "path_parts ''uploads'' = [''uploads'']" by (simp add: path_parts_def)
  ultimately show ?thesis by (simp add: path_join_def)
qed

lemma stored_path_suffix:
  assumes jid: "jid \<noteq> []" "CHR ''/'' \<notin> set jid"
    and r: "CHR ''/'' \<notin> set r" "r \<noteq> []" "CHR ''.'' \<notin> set r"
  shows "path_suffix (''uploads/'' @ jid @ CHR ''.'' # r) = CHR ''.'' # r"
proof -
  let ?n = "jid @ CHR ''.'' # r"
  have ns: "CHR ''/'' \<notin> set ?n" using jid r by simp
  have ne: "?n \<noteq> ''.''" using jid by (cases jid) auto
  have "split_on CHR ''/'' (''uploads'' @ CHR ''/'' # ?n) = ''uploads'' # split_on CHR ''/'' ?n"
    by (rule split_on_append) simp
  then have "split_on CHR ''/'' (''uploads/'' @ ?n) = [''uploads'', ?n]"
    using split_on_no_sep[OF ns] by simp
  then have "path_parts (''uploads/'' @ ?n) = [''uploads'', ?n]"
    using ne by (simp add: path_parts_def)
  then have name: "path_name (''uploads/'' @ ?n) = ?n"
    by (simp add: path_name_def)
  have rf: "rfind CHR ''.'' ?n = int (length jid)"
    using r by (simp add: rfind_append)
  have "0 < int (length jid)" using jid by simp
  moreover have "int (length jid) < int (length ?n) - 1" using r by (cases r) auto
  ultimately show ?thesis using name rf by (simp add: path_suffix_def Let_def)
qed

lemma stored_path_valid:
  assumes "is_uuid_str jid" and "e \<in> ALLOWED_EXTENSIONS"
  shows "validate_file_format (path_join ''uploads'' (jid @ e))"
proof -
  obtain r where e: "e = CHR ''.'' # r" and r: "r \<noteq> []" "CHR ''.'' \<notin> set r" "CHR ''/'' \<notin> set r"
    and low: "lower e = e" and sup: "r \<in> set get_supported_formats"
    using allowed_extension_shape[OF assms(2)] by blast
  have j: "jid \<noteq> []" "CHR ''/'' \<notin> set jid"
    using is_uuid_str_chars[OF assms(1)] by simp_all
  have "path_join ''uploads'' (jid @ e) = ''uploads/'' @ jid @ e"
    using stored_path[OF j r(3) r(1)] e by simp
  moreover have "path_suffix (''uploads/'' @ jid @ e) = e"
    using stored_path_suffix[OF j r(3) r(1) r(2)] e by simp
  moreover have "lstrip CHR ''.'' e = r"
    using e r(2) by (cases r) (auto simp: lstrip_def)
  ultimately show ?thesis using low sup by (simp add: validate_file_format_def Let_def)
qed

lemma new_ProcessingState_fields:
  "new_ProcessingState jid d fp st err = Returns s \<Longrightarrow>
   file_path s = fp \<and> job_id s = jid \<and> processing_status s = st \<and> retry_count s = 0"
  by (auto simp: new_ProcessingState_def initial_ProcessingState_def
      split: if_splits option.splits)

lemma upload_accepted:
  assumes acc: "upload_document env file d app = (Inr resp, app')"
  shows "\<exists>fn st. filename file = Some fn \<and> lower (path_suffix fn) \<in> ALLOWED_EXTENSIONS
           \<and> resp_job_id resp = uuid4 env (uuid_calls app)
           \<and> resp_file_path resp
                = path_join ''uploads'' (uuid4 env (uuid_calls app) @ lower (path_suffix fn))
           \<and> map_of (job_storage app') (resp_job_id resp) = Some st
           \<and> file_path st = resp_file_path resp"
proof -
  let ?jid = "uuid4 env (uuid_calls app)"
  have d: "d \<in> set [''employment_contract'', ''payslip'']"
  proof (rule ccontr)
    assume "d \<notin> set [''employment_contract'', ''payslip'']"
    then have "upload_document env file d app = (Inl (HTTPException 400), app)"
      by (simp add: upload_document_def)
    then show False using acc by simp
  qed
  obtain u where v: "validate_file_upload file = Inr u"
  proof (cases "validate_file_upload file")
    case (Inl e)
    then have "upload_document env file d app = (Inl e, app)"
      using d by (simp add: upload_document_def)
    then show ?thesis using acc by simp
  next
    case (Inr u)
    then show ?thesis using that by blast
  qed
  obtain fn where fn: "filename file = Some fn"
    and ext: "lower (path_suffix fn) \<in> ALLOWED_EXTENSIONS"
    using v by (cases "filename file") (simp_all add: validate_file_upload_def split: if_splits)
  let ?fp = "path_join ''uploads'' (?jid @ lower (path_suffix fn))"
  let ?app1 = "app\<lparr>uuid_calls := uuid_calls app + 1\<rparr>"
  have sv: "save_uploaded_file env file ?jid (files ?app1)
              = (if io_fault env \<or> MAX_FILE_SIZE < content_length file
                 then (Inl (HTTPException 500), files app)
                 else (Inr ?fp, insert ?fp (files app)))"
    using fn by (simp add: save_uploaded_file_def Let_def)
  have ok: "\<not> (io_fault env \<or> MAX_FILE_SIZE < content_length file)"
  proof
    assume "io_fault env \<or> MAX_FILE_SIZE < content_length file"
    then have "save_uploaded_file env file ?jid (files ?app1)
                 = (Inl (HTTPException 500), files app)"
      using sv by simp
    then have "fst (upload_document env file d app) = Inl (HTTPException 500)"
      using d v by (simp add: upload_document_def Let_def)
    then show False using acc by simp
  qed
  have sv': "save_uploaded_file env file ?jid (files ?app1) = (Inr ?fp, insert ?fp (files app))"
    using sv ok by simp
  show ?thesis
  proof (cases "new_ProcessingState ?jid d ?fp Pending None")
    case (Raises e)
    then have "fst (upload_document env file d app) = Inl (HTTPException 500)"
      using d v sv' by (simp add: upload_document_def Let_def)
    then show ?thesis using acc by simp
  next
    case (Returns st)
    then have "resp_job_id (projr (fst (upload_document env file d app))) = ?jid
        \<and> resp_file_path (projr (fst (upload_document env file d app))) = ?fp
        \<and> map_of (job_storage (snd (upload_document env file d app))) ?jid = Some st"
      using d v sv' by (simp add: upload_document_def Let_def update_conv')
    then have "resp_job_id resp = ?jid \<and> resp_file_path resp = ?fp
        \<and> map_of (job_storage app') ?jid = Some st"
      using acc by simp
    moreover have "file_path st = ?fp"
      using new_ProcessingState_fields[OF Returns] by simp
    ultimately show ?thesis using fn ext by simp
  qed
qed

text \<open>
  Claim C10. Every extension of the upload endpoint's allowed set is, without its
  dot, one of the document processor's supported formats; and for every job the
  upload endpoint creates (with the identifier a UUID string), the stored state's
  \<open>file_path\<close> passes \<open>validate_file_format\<close>, so the validate step, run with the real
  validator on that state, does not take its unsupported-format branch.
\<close>

theorem uploaded_file_format_supported:
  "(\<forall>e \<in> ALLOWED_EXTENSIONS. lstrip CHR ''.'' (lower e) \<in> set get_supported_formats)
   \<and> (is_uuid_str (uuid4 env (uuid_calls app))
        \<and> upload_document env file d app = (Inr resp, app')
      \<longrightarrow> (\<exists>st. map_of (job_storage app') (resp_job_id resp) = Some st
             \<and> file_path st = resp_file_path resp
             \<and> validate_file_format (file_path st)
             \<and> processing_status
                  (validate_document_node (wenv\<lparr>dp_validate_file_format := real_validate\<rparr>) st)
                 \<noteq> Failed))"
proof -
  have a: "\<forall>e \<in> ALLOWED_EXTENSIONS. lstrip CHR ''.'' (lower e) \<in> set get_supported_formats"
    by (simp add: ALLOWED_EXTENSIONS_def get_supported_formats_def lower_def lower_char_def
        lstrip_def)
  have b: "is_uuid_str (uuid4 env (uuid_calls app))
        \<and> upload_document env file d app = (Inr resp, app')
      \<longrightarrow> (\<exists>st. map_of (job_storage app') (resp_job_id resp) = Some st
             \<and> file_path st = resp_file_path resp
             \<and> validate_file_format (file_path st)
             \<and> processing_status
                  (validate_document_node (wenv\<lparr>dp_validate_file_format := real_validate\<rparr>) st)
                 \<noteq> Failed)"
  proof
    assume h: "is_uuid_str (uuid4 env (uuid_calls app))
        \<and> upload_document env file d app = (Inr resp, app')"
    then have "upload_document env file d app = (Inr resp, app')"
      by simp
    from upload_accepted[OF this]
    obtain fn st where ext: "lower (path_suffix fn) \<in> ALLOWED_EXTENSIONS"
      and fp: "resp_file_path resp
                = path_join ''uploads'' (uuid4 env (uuid_calls app) @ lower (path_suffix fn))"
      and st: "map_of (job_storage app') (resp_job_id resp) = Some st"
              "file_path st = resp_file_path resp"
      by blast
    have v: "validate_file_format (file_path st)"
      using stored_path_valid[OF conjunct1[OF h] ext] fp st(2) by simp
    then have "processing_status
                  (validate_document_node (wenv\<lparr>dp_validate_file_format := real_validate\<rparr>) st)
                 \<noteq> Failed"
      by (simp add: validate_document_node_def update_status_def real_validate_def Let_def)
    then show "\<exists>st. map_of (job_storage app') (resp_job_id resp) = Some st
             \<and> file_path st = resp_file_path resp
             \<and> validate_file_format (file_path st)
             \<and> processing_status
                  (validate_document_node (wenv\<lparr>dp_validate_file_format := real_validate\<rparr>) st)
                 \<noteq> Failed"
      using st v by blast
  qed
  from a b show ?thesis by blast
qed


theorem uploaded_file_format_supported_witness:
  "''.pdf'' \<in> ALLOWED_EXTENSIONS
   \<and> lstrip CHR ''.'' (lower ''.pdf'') \<in> set get_supported_formats
   \<and> is_uuid_str (uuid4 sample_api_env (uuid_calls empty_app))
   \<and> fst (upload_document sample_api_env pdf_upload ''payslip'' empty_app)
       = Inr \<lparr>resp_job_id = ''3f2b8c1e-5d4a-4e6f-9a7b-0c1d2e3f4a5b'',
               resp_message = ''Document uploaded successfully. Processing started.'',
               resp_file_path = ''uploads/3f2b8c1e-5d4a-4e6f-9a7b-0c1d2e3f4a5b.pdf''\<rparr>
   \<and> validate_file_format ''uploads/3f2b8c1e-5d4a-4e6f-9a7b-0c1d2e3f4a5b.pdf''"
  using uploaded_file_format_supported [of sample_api_env empty_app pdf_upload "''payslip''"
               "\<lparr>resp_job_id = ''3f2b8c1e-5d4a-4e6f-9a7b-0c1d2e3f4a5b'',
                 resp_message = ''Document uploaded successfully. Processing started.'',
                 resp_file_path = ''uploads/3f2b8c1e-5d4a-4e6f-9a7b-0c1d2e3f4a5b.pdf''\<rparr>"
               "snd (upload_document sample_api_env pdf_upload ''payslip'' empty_app)"
               all_succeed]
  by (simp add: upload_defs path_defs sample_api_env_def pdf_upload_def empty_app_def
      is_uuid_str_def get_supported_formats_def validate_file_format_def
      initial_ProcessingState_def)

end
